theory Spec2Isabelle
  imports Complex_Main
begin

section \<open>Data model\<close>

text \<open>
  The serializers of \<^verbatim>\<open>listings/serializers.py\<close> read and write two tables, the
  listings and the bookings. The model classes themselves are declared outside the
  serializers; the records below hold the columns the booking serializers use, with the
  names the serializers use for them.

  A listing's primary key is a UUID, only ever compared for equality: a natural number
  stands for it. A date is its day number (Python's \<^verbatim>\<open>date.toordinal()\<close>), so that the
  \<^verbatim>\<open>.days\<close> of a difference of two dates is the difference of two integers. A price is a
  decimal number, modelled as a rational.
\<close>

type_synonym uuid = nat
type_synonym date = int

record Listing =
  listing_status :: string
  is_available :: bool
  max_guests :: int
  minimum_stay :: int
  maximum_stay :: "int option"
  price_per_night :: rat

text \<open>
  \<open>attrs\<close> is the dictionary of the writable fields of \<^verbatim>\<open>BookingCreateSerializer\<close>
  (\<^verbatim>\<open>Meta.fields\<close>), after the framework has converted each value to its Python type.
  A booking row has these columns (the foreign key to the listing is the column
  \<^verbatim>\<open>listing_id\<close>) and the three that \<^verbatim>\<open>create\<close> and the table add.
\<close>

record attrs =
  listing_id :: uuid
  check_in_date :: date
  check_out_date :: date
  guests :: int
  special_requests :: string

record Booking = attrs +
  user :: nat
  total_price :: rat
  status :: string

record database =
  Listing_objects :: "uuid \<rightharpoonup> Listing"
  Booking_objects :: "Booking list"

section \<open>Errors\<close>

text \<open>
  \<^verbatim>\<open>serializers.ValidationError\<close> is raised either with one message or with a dictionary
  from field names to messages. \<^verbatim>\<open>Listing.objects.get\<close> raises \<^verbatim>\<open>DoesNotExist\<close> when
  no row matches.
\<close>

datatype detail = Message string | FieldErrors "(string \<times> detail) list"

datatype error = ValidationError detail | DoesNotExist

text \<open>Python's \<^verbatim>\<open>str\<close> of an integer, as the f-strings of the messages format it.\<close>

function str_nat :: "nat \<Rightarrow> string" where
  "str_nat n =
     (if n < 10 then [''0123456789'' ! n]
      else str_nat (n div 10) @ [''0123456789'' ! (n mod 10)])"
  by pat_completeness auto
termination
  by (relation "measure id") auto

declare str_nat.simps [simp del]

definition str :: "int \<Rightarrow> string" where
  "str i = (if i < 0 then CHR ''-'' # str_nat (nat (- i)) else str_nat (nat i))"

text \<open>The same for a nullable integer column: \<^verbatim>\<open>None\<close> formats as its name.\<close>

definition str_option :: "int option \<Rightarrow> string" where
  "str_option x = (case x of None \<Rightarrow> ''None'' | Some i \<Rightarrow> str i)"

section \<open>BookingUpdateSerializer\<close>

text \<open>
  \<^verbatim>\<open>allowed_transitions\<close> is the dictionary of \<^verbatim>\<open>validate_status\<close>;
  \<^verbatim>\<open>allowed_transitions.get(current_status, [])\<close> is the lookup with the empty list
  as default.
\<close>

definition allowed_transitions :: "string \<rightharpoonup> string list" where
  "allowed_transitions =
     [''pending'' \<mapsto> [''confirmed'', ''cancelled''],
      ''confirmed'' \<mapsto> [''completed'', ''cancelled''],
      ''cancelled'' \<mapsto> [],
      ''completed'' \<mapsto> []]"

definition validate_status :: "Booking \<Rightarrow> string \<Rightarrow> error + string" where
  "validate_status instance value =
     (let current_status = status instance in
      if value \<notin> set (case allowed_transitions current_status of None \<Rightarrow> [] | Some ts \<Rightarrow> ts)
      then Inl (ValidationError (Message
             (''Cannot change status from '' @ current_status @ '' to '' @ value @ ''.'')))
      else Inr value)"

section \<open>BookingCreateSerializer\<close>

subsection \<open>Field validators\<close>

text \<open>
  Each \<^verbatim>\<open>validate_<field>\<close> method receives the converted value of its field and
  either returns it or raises a validation error with one message.
  \<^verbatim>\<open>date.today()\<close> is the parameter \<open>today\<close>.
\<close>

definition validate_listing_id :: "database \<Rightarrow> uuid \<Rightarrow> error + uuid" where
  "validate_listing_id db value =
     (case Listing_objects db value of
        None \<Rightarrow> Inl (ValidationError (Message
          ''Invalid listing ID or listing is not available for booking.''))
      | Some listing \<Rightarrow>
          if listing_status listing = ''published'' \<and> is_available listing then Inr value
          else Inl (ValidationError (Message
            ''Invalid listing ID or listing is not available for booking.'')))"

definition validate_check_in_date :: "date \<Rightarrow> date \<Rightarrow> error + date" where
  "validate_check_in_date today value =
     (if value \<le> today
      then Inl (ValidationError (Message ''Check-in date must be in the future.''))
      else Inr value)"

definition validate_check_out_date :: "date \<Rightarrow> date \<Rightarrow> error + date" where
  "validate_check_out_date today value =
     (if value \<le> today
      then Inl (ValidationError (Message ''Check-out date must be in the future.''))
      else Inr value)"

definition validate_guests :: "int \<Rightarrow> error + int" where
  "validate_guests value =
     (if value \<le> 0
      then Inl (ValidationError (Message ''Number of guests must be greater than 0.''))
      else Inr value)"

subsection \<open>Object-level validation\<close>

text \<open>
  The query of \<^verbatim>\<open>validate\<close>: the bookings of the listing whose status is
  \<^verbatim>\<open>confirmed\<close> or \<^verbatim>\<open>pending\<close>, whose check-in is before the requested check-out
  and whose check-out is after the requested check-in.
\<close>

definition overlapping_bookings :: "database \<Rightarrow> attrs \<Rightarrow> Booking list" where
  "overlapping_bookings db attrs =
     filter (\<lambda>b. listing_id b = listing_id attrs \<and>
                 status b \<in> set [''confirmed'', ''pending''] \<and>
                 check_in_date b < check_out_date attrs \<and>
                 check_out_date b > check_in_date attrs)
       (Booking_objects db)"

text \<open>
  \<^verbatim>\<open>listing.maximum_stay and duration > listing.maximum_stay\<close>: a maximum stay that is
  \<^verbatim>\<open>None\<close> or \<open>0\<close> is falsy, and then the comparison is not made.
\<close>

definition exceeds_maximum_stay :: "Listing \<Rightarrow> int \<Rightarrow> bool" where
  "exceeds_maximum_stay listing duration =
     (case maximum_stay listing of
        None \<Rightarrow> False
      | Some m \<Rightarrow> m \<noteq> 0 \<and> duration > m)"

definition validate :: "database \<Rightarrow> attrs \<Rightarrow> error + attrs" where
  "validate db attrs =
     (if check_out_date attrs \<le> check_in_date attrs
      then Inl (ValidationError (FieldErrors
             [(''check_out_date'', Message ''Check-out date must be after check-in date.'')]))
      else
        case Listing_objects db (listing_id attrs) of
          None \<Rightarrow> Inl DoesNotExist
        | Some listing \<Rightarrow>
            if guests attrs > max_guests listing
            then Inl (ValidationError (FieldErrors
                   [(''guests'', Message
                       (''Number of guests cannot exceed '' @ str (max_guests listing) @ ''.''))]))
            else
              let duration = check_out_date attrs - check_in_date attrs in
              if duration < minimum_stay listing
              then Inl (ValidationError (FieldErrors
                     [(''check_out_date'', Message
                         (''Minimum stay is '' @ str (minimum_stay listing) @ '' nights.''))]))
              else if exceeds_maximum_stay listing duration
              then Inl (ValidationError (FieldErrors
                     [(''check_out_date'', Message
                         (''Maximum stay is '' @ str_option (maximum_stay listing) @ '' nights.''))]))
              else if overlapping_bookings db attrs \<noteq> []
              then Inl (ValidationError (Message
                     ''The selected dates are not available for booking.''))
              else Inr attrs)"

subsection \<open>The framework's validation run\<close>

text \<open>
  The serializer classes inherit \<^verbatim>\<open>run_validation\<close> from the REST framework's
  \<^verbatim>\<open>Serializer\<close>. Its \<^verbatim>\<open>to_internal_value\<close> loops over the writable fields in the
  order of \<^verbatim>\<open>Meta.fields\<close>, calls the field's \<^verbatim>\<open>validate_<field>\<close> method, and files
  the detail of a validation error under the field's name instead of stopping; any other
  exception leaves the loop. After the loop it raises one validation error with all the
  filed details, if there are any. Only when there are none is \<^verbatim>\<open>validate\<close> called.
  (The framework files a message that \<^verbatim>\<open>validate\<close> raises without a field under its key
  for non-field errors; the model keeps it as the bare \<open>Message\<close>.)
\<close>

fun collect_errors ::
  "(string \<times> (error + unit)) list \<Rightarrow> (string \<times> detail) list \<Rightarrow> error + (string \<times> detail) list"
where
  "collect_errors [] errors = Inr errors"
| "collect_errors ((name, Inl (ValidationError d)) # rest) errors =
     collect_errors rest (errors @ [(name, d)])"
| "collect_errors ((name, Inl DoesNotExist) # rest) errors = Inl DoesNotExist"
| "collect_errors ((name, Inr u) # rest) errors = collect_errors rest errors"

definition outcome :: "error + 'a \<Rightarrow> error + unit" where
  "outcome r = (case r of Inl e \<Rightarrow> Inl e | Inr v \<Rightarrow> Inr ())"

definition to_internal_value :: "database \<Rightarrow> date \<Rightarrow> attrs \<Rightarrow> error + attrs" where
  "to_internal_value db today data =
     (case collect_errors
             [(''listing_id'', outcome (validate_listing_id db (listing_id data))),
              (''check_in_date'', outcome (validate_check_in_date today (check_in_date data))),
              (''check_out_date'', outcome (validate_check_out_date today (check_out_date data))),
              (''guests'', outcome (validate_guests (guests data)))] [] of
        Inl e \<Rightarrow> Inl e
      | Inr errors \<Rightarrow>
          if errors \<noteq> [] then Inl (ValidationError (FieldErrors errors)) else Inr data)"

definition run_validation :: "database \<Rightarrow> date \<Rightarrow> attrs \<Rightarrow> error + attrs" where
  "run_validation db today data =
     (case to_internal_value db today data of
        Inl e \<Rightarrow> Inl e
      | Inr value \<Rightarrow> validate db value)"

subsection \<open>Creation\<close>

text \<open>
  Modelled from the spec: the default of the \<^verbatim>\<open>status\<close> column is declared in the model
  class, outside the serializers; a new booking is created in status \<^verbatim>\<open>pending\<close>.
\<close>

definition default_status :: string where
  "default_status = ''pending''"

text \<open>
  \<^verbatim>\<open>create\<close> computes the total price and inserts the row; the new row is the last of
  the table. \<open>request_user\<close> is \<^verbatim>\<open>self.context['request'].user\<close>.
\<close>

definition create :: "database \<Rightarrow> nat \<Rightarrow> attrs \<Rightarrow> error + Booking \<times> database" where
  "create db request_user validated_data =
     (case Listing_objects db (listing_id validated_data) of
        None \<Rightarrow> Inl DoesNotExist
      | Some listing \<Rightarrow>
          let duration = check_out_date validated_data - check_in_date validated_data;
              price = price_per_night listing * of_int duration;
              booking = \<lparr>listing_id = listing_id validated_data,
                         check_in_date = check_in_date validated_data,
                         check_out_date = check_out_date validated_data,
                         guests = guests validated_data,
                         special_requests = special_requests validated_data,
                         user = request_user,
                         total_price = price,
                         status = default_status\<rparr>
          in Inr (booking, db\<lparr>Booking_objects := Booking_objects db @ [booking]\<rparr>))"

text \<open>The admission of a request: \<^verbatim>\<open>is_valid()\<close>, then \<^verbatim>\<open>save()\<close>.\<close>

definition create_booking ::
  "database \<Rightarrow> date \<Rightarrow> nat \<Rightarrow> attrs \<Rightarrow> error + Booking \<times> database" where
  "create_booking db today request_user data =
     (case run_validation db today data of
        Inl e \<Rightarrow> Inl e
      | Inr validated_data \<Rightarrow> create db request_user validated_data)"

section \<open>Updating a booking\<close>

text \<open>
  The input of \<^verbatim>\<open>BookingUpdateSerializer\<close> has the two fields of its \<^verbatim>\<open>Meta.fields\<close>,
  each present or absent. The framework skips an absent field: \<^verbatim>\<open>validate_status\<close> is
  called only on a status that is present. The inherited \<^verbatim>\<open>update\<close> sets the attributes
  that are present on the instance and saves it.
\<close>

record update_data =
  status_value :: "string option"
  special_requests_value :: "string option"

definition update_run_validation :: "Booking \<Rightarrow> update_data \<Rightarrow> error + update_data" where
  "update_run_validation instance data =
     (case status_value data of
        None \<Rightarrow> Inr data
      | Some value \<Rightarrow>
          (case validate_status instance value of
             Inl (ValidationError d) \<Rightarrow> Inl (ValidationError (FieldErrors [(''status'', d)]))
           | Inl DoesNotExist \<Rightarrow> Inl DoesNotExist
           | Inr value' \<Rightarrow> Inr (data\<lparr>status_value := Some value'\<rparr>)))"

definition update :: "Booking \<Rightarrow> update_data \<Rightarrow> Booking" where
  "update instance validated_data =
     (let instance1 = (case status_value validated_data of
                         None \<Rightarrow> instance
                       | Some value \<Rightarrow> instance\<lparr>status := value\<rparr>)
      in case special_requests_value validated_data of
           None \<Rightarrow> instance1
         | Some value \<Rightarrow> instance1\<lparr>special_requests := value\<rparr>)"

text \<open>
  The update of the row at position \<open>i\<close> of the table; a position outside the table is
  a booking that does not exist.
\<close>

definition update_booking :: "database \<Rightarrow> nat \<Rightarrow> update_data \<Rightarrow> error + database" where
  "update_booking db i data =
     (if i < length (Booking_objects db)
      then
        let instance = Booking_objects db ! i in
        case update_run_validation instance data of
          Inl e \<Rightarrow> Inl e
        | Inr validated_data \<Rightarrow>
            Inr (db\<lparr>Booking_objects := (Booking_objects db)[i := update instance validated_data]\<rparr>)
      else Inl DoesNotExist)"

section \<open>Sequential executions\<close>

text \<open>
  The booking tables that sequential executions of the admission and of the update reach
  from the empty table. Each execution runs to its end before the next starts; the
  listings, the current date and the requesting user are arbitrary at each step.
\<close>

inductive reachable :: "Booking list \<Rightarrow> bool" where
  initial: "reachable []"
| admitted:
    "reachable bs \<Longrightarrow>
     create_booking \<lparr>Listing_objects = ls, Booking_objects = bs\<rparr> today u data = Inr (b, db') \<Longrightarrow>
     reachable (Booking_objects db')"
| updated:
    "reachable bs \<Longrightarrow>
     update_booking \<lparr>Listing_objects = ls, Booking_objects = bs\<rparr> i data = Inr db' \<Longrightarrow>
     reachable (Booking_objects db')"

section \<open>The specification's terms\<close>

text \<open>
  The five validation steps that the specification lists before the overlap check, each
  as the condition under which the step passes, in the specification's words:
  the listing exists, is published and is available; check-in and check-out are each
  strictly later than the current date; check-out is strictly after check-in; the guest
  count does not exceed the listing's maximum; the stay in whole days is at least the
  listing's minimum stay and, if the listing defines a maximum stay, at most that.
  A listing defines a maximum stay when the stored value is neither null nor zero.
\<close>

definition step1 :: "database \<Rightarrow> attrs \<Rightarrow> bool" where
  "step1 db data =
     (case Listing_objects db (listing_id data) of
        None \<Rightarrow> False
      | Some l \<Rightarrow> listing_status l = ''published'' \<and> is_available l)"

definition step2 :: "date \<Rightarrow> attrs \<Rightarrow> bool" where
  "step2 today data = (today < check_in_date data \<and> today < check_out_date data)"

definition step3 :: "attrs \<Rightarrow> bool" where
  "step3 data = (check_in_date data < check_out_date data)"

definition step4 :: "database \<Rightarrow> attrs \<Rightarrow> bool" where
  "step4 db data =
     (case Listing_objects db (listing_id data) of
        None \<Rightarrow> False
      | Some l \<Rightarrow> guests data \<le> max_guests l)"

definition stay_within :: "Listing \<Rightarrow> int \<Rightarrow> bool" where
  "stay_within l nights =
     (minimum_stay l \<le> nights \<and>
      (case maximum_stay l of None \<Rightarrow> True | Some m \<Rightarrow> m = 0 \<or> nights \<le> m))"

definition step5 :: "database \<Rightarrow> attrs \<Rightarrow> bool" where
  "step5 db data =
     (case Listing_objects db (listing_id data) of
        None \<Rightarrow> False
      | Some l \<Rightarrow> stay_within l (check_out_date data - check_in_date data))"

text \<open>
  Two ranges overlap when the existing check-in is before the requested check-out and the
  existing check-out is after the requested check-in. A request conflicts when a booking
  of the same listing, pending or confirmed, overlaps it.
\<close>

definition overlaps :: "Booking \<Rightarrow> attrs \<Rightarrow> bool" where
  "overlaps existing requested =
     (check_in_date existing < check_out_date requested \<and>
      check_out_date existing > check_in_date requested)"

definition conflicting :: "database \<Rightarrow> attrs \<Rightarrow> bool" where
  "conflicting db data =
     (\<exists>b \<in> set (Booking_objects db).
        listing_id b = listing_id data \<and>
        (status b = ''pending'' \<or> status b = ''confirmed'') \<and> overlaps b data)"

text \<open>
  The specification's names for the errors that \<^verbatim>\<open>validate\<close> raises, each standing for
  the value raised there: the date range, the capacity, the stay duration (one error for
  the minimum, one for the maximum) and the availability of the range.
\<close>

definition InvalidDateRange :: error where
  "InvalidDateRange =
     ValidationError (FieldErrors
       [(''check_out_date'', Message ''Check-out date must be after check-in date.'')])"

definition CapacityExceeded :: "Listing \<Rightarrow> error" where
  "CapacityExceeded l =
     ValidationError (FieldErrors
       [(''guests'', Message (''Number of guests cannot exceed '' @ str (max_guests l) @ ''.''))])"

definition minimum_stay_error :: "Listing \<Rightarrow> error" where
  "minimum_stay_error l =
     ValidationError (FieldErrors
       [(''check_out_date'', Message (''Minimum stay is '' @ str (minimum_stay l) @ '' nights.''))])"

definition maximum_stay_error :: "Listing \<Rightarrow> error" where
  "maximum_stay_error l =
     ValidationError (FieldErrors
       [(''check_out_date'',
         Message (''Maximum stay is '' @ str_option (maximum_stay l) @ '' nights.''))])"

definition DateRangeUnavailable :: error where
  "DateRangeUnavailable =
     ValidationError (Message ''The selected dates are not available for booking.'')"

text \<open>
  The violated field-level checks of a request, each with the field it is filed under, in
  the order of the fields; and the fields that an error is filed under.
\<close>

definition field_violations :: "database \<Rightarrow> date \<Rightarrow> attrs \<Rightarrow> (string \<times> detail) list" where
  "field_violations db today data =
     (if step1 db data then []
      else [(''listing_id'',
             Message ''Invalid listing ID or listing is not available for booking.'')]) @
     (if today < check_in_date data then []
      else [(''check_in_date'', Message ''Check-in date must be in the future.'')]) @
     (if today < check_out_date data then []
      else [(''check_out_date'', Message ''Check-out date must be in the future.'')]) @
     (if 0 < guests data then []
      else [(''guests'', Message ''Number of guests must be greater than 0.'')])"

fun error_fields :: "error \<Rightarrow> string list" where
  "error_fields (ValidationError (FieldErrors es)) = map fst es"
| "error_fields (ValidationError (Message m)) = []"
| "error_fields DoesNotExist = []"

text \<open>
  A booking holds its dates while it is pending or confirmed. A table has no double
  booking when no two of its rows on the same listing, both pending or confirmed, have
  overlapping ranges.
\<close>

definition active :: "Booking \<Rightarrow> bool" where
  "active b = (status b = ''pending'' \<or> status b = ''confirmed'')"

definition no_double_booking :: "Booking list \<Rightarrow> bool" where
  "no_double_booking bs =
     (\<forall>i < length bs. \<forall>j < length bs.
        i \<noteq> j \<and> listing_id (bs ! i) = listing_id (bs ! j) \<and> active (bs ! i) \<and> active (bs ! j) \<longrightarrow>
        \<not> (check_in_date (bs ! i) < check_out_date (bs ! j) \<and>
           check_out_date (bs ! i) > check_in_date (bs ! j)))"

section \<open>Example data\<close>

text \<open>
  The listing of the specification's example (minimum stay 2, maximum stay 14, at most 4
  guests), a listing whose stored maximum stay is 0, and a confirmed booking of the first
  from 2025-06-01 to 2025-06-05 (day numbers 739403 and 739407). The current date of the
  examples is day 739000.
\<close>

definition example_listing :: Listing where
  "example_listing =
     \<lparr>listing_status = ''published'', is_available = True, max_guests = 4,
      minimum_stay = 2, maximum_stay = Some 14, price_per_night = 120\<rparr>"

definition open_ended_listing :: Listing where
  "open_ended_listing =
     \<lparr>listing_status = ''published'', is_available = True, max_guests = 4,
      minimum_stay = 1, maximum_stay = Some 0, price_per_night = 80\<rparr>"

definition june_booking :: Booking where
  "june_booking =
     \<lparr>listing_id = 1, check_in_date = 739403, check_out_date = 739407, guests = 2,
      special_requests = '''', user = 1, total_price = 480, status = ''confirmed''\<rparr>"

definition example_db :: database where
  "example_db =
     \<lparr>Listing_objects = [1 \<mapsto> example_listing, 2 \<mapsto> open_ended_listing],
      Booking_objects = [june_booking]\<rparr>"

definition request :: "uuid \<Rightarrow> date \<Rightarrow> date \<Rightarrow> int \<Rightarrow> attrs" where
  "request l check_in check_out g =
     \<lparr>listing_id = l, check_in_date = check_in, check_out_date = check_out, guests = g,
      special_requests = ''''\<rparr>"

text \<open>A pending booking of the example listing by user 7, for two guests.\<close>

definition stay :: "date \<Rightarrow> date \<Rightarrow> Booking" where
  "stay check_in check_out =
     \<lparr>listing_id = 1, check_in_date = check_in, check_out_date = check_out, guests = 2,
      special_requests = '''', user = 7, total_price = 120 * of_int (check_out - check_in),
      status = ''pending''\<rparr>"

section \<open>Evaluation and basic facts\<close>

lemmas examples =
  example_listing_def open_ended_listing_def june_booking_def example_db_def request_def
  stay_def

lemmas admission =
  create_booking_def run_validation_def validate_def exceeds_maximum_stay_def
  overlapping_bookings_def create_def default_status_def Let_def

lemmas steps =
  step1_def step2_def step3_def step4_def step5_def stay_within_def conflicting_def overlaps_def

lemmas field_validators =
  to_internal_value_def validate_listing_id_def validate_check_in_date_def
  validate_check_out_date_def validate_guests_def outcome_def

lemmas messages = str_def str_option_def str_nat.simps

lemma allowed_transitions_get:
  "(case allowed_transitions c of None \<Rightarrow> [] | Some ts \<Rightarrow> ts) =
     (if c = ''pending'' then [''confirmed'', ''cancelled'']
      else if c = ''confirmed'' then [''completed'', ''cancelled''] else [])"
  by (simp add: allowed_transitions_def)

lemma validate_status_cases:
  "validate_status b v =
     (if (status b = ''pending'' \<and> (v = ''confirmed'' \<or> v = ''cancelled'')) \<or>
         (status b = ''confirmed'' \<and> (v = ''completed'' \<or> v = ''cancelled''))
      then Inr v
      else Inl (ValidationError (Message
             (''Cannot change status from '' @ status b @ '' to '' @ v @ ''.''))))"
  unfolding validate_status_def Let_def allowed_transitions_get
  by auto

lemma to_internal_value_eq:
  "to_internal_value db today data =
     (if field_violations db today data = [] then Inr data
      else Inl (ValidationError (FieldErrors (field_violations db today data))))"
  by (simp add: to_internal_value_def field_violations_def step1_def
      validate_listing_id_def validate_check_in_date_def validate_check_out_date_def
      validate_guests_def outcome_def split: option.split)

lemma field_violations_Nil:
  "field_violations db today data = [] \<longleftrightarrow> step1 db data \<and> step2 today data \<and> 0 < guests data"
  by (auto simp: field_violations_def step2_def)

lemma run_validation_eq:
  "run_validation db today data =
     (if step1 db data \<and> step2 today data \<and> 0 < guests data then validate db data
      else Inl (ValidationError (FieldErrors (field_violations db today data))))"
  unfolding run_validation_def to_internal_value_eq field_violations_Nil by simp

lemma overlapping_bookings_Nil:
  "overlapping_bookings db data \<noteq> [] \<longleftrightarrow> conflicting db data"
  by (auto simp: overlapping_bookings_def conflicting_def overlaps_def filter_empty_conv)

lemma validate_first_violation:
  assumes "Listing_objects db (listing_id data) = Some l"
  shows "validate db data =
     (if check_out_date data \<le> check_in_date data then Inl InvalidDateRange
      else if max_guests l < guests data then Inl (CapacityExceeded l)
      else if check_out_date data - check_in_date data < minimum_stay l
        then Inl (minimum_stay_error l)
      else if exceeds_maximum_stay l (check_out_date data - check_in_date data)
        then Inl (maximum_stay_error l)
      else if conflicting db data then Inl DateRangeUnavailable
      else Inr data)"
  using assms
  by (simp add: validate_def Let_def InvalidDateRange_def CapacityExceeded_def
      minimum_stay_error_def maximum_stay_error_def DateRangeUnavailable_def
      overlapping_bookings_Nil)

lemma stay_within_iff:
  "stay_within l n \<longleftrightarrow> \<not> n < minimum_stay l \<and> \<not> exceeds_maximum_stay l n"
  by (auto simp: stay_within_def exceeds_maximum_stay_def split: option.splits)

lemma validate_overlap_check:
  assumes "step3 data" "step4 db data" "step5 db data"
  shows "validate db data = (if conflicting db data then Inl DateRangeUnavailable else Inr data)"
proof -
  from assms(2) obtain l where l: "Listing_objects db (listing_id data) = Some l"
    by (auto simp: step4_def split: option.splits)
  with assms show ?thesis
    by (simp add: validate_first_violation step3_def step4_def step5_def stay_within_iff)
qed

lemma validate_Inr:
  "validate db data = Inr v \<longleftrightarrow>
     v = data \<and> step3 data \<and> step4 db data \<and> step5 db data \<and> \<not> conflicting db data"
proof (cases "Listing_objects db (listing_id data)")
  case None
  then show ?thesis
    by (auto simp: validate_def step4_def)
next
  case (Some l)
  then show ?thesis
    by (auto simp: validate_first_violation step3_def step4_def step5_def stay_within_iff)
qed

lemma run_validation_Inr:
  "run_validation db today data = Inr v \<longleftrightarrow>
     v = data \<and> step1 db data \<and> step2 today data \<and> 0 < guests data \<and>
     step3 data \<and> step4 db data \<and> step5 db data \<and> \<not> conflicting db data"
  by (auto simp: run_validation_eq validate_Inr)

lemma create_booking_Inr:
  assumes "create_booking db today u data = Inr (b, db')"
  shows "Booking_objects db' = Booking_objects db @ [b] \<and>
         listing_id b = listing_id data \<and>
         check_in_date b = check_in_date data \<and>
         check_out_date b = check_out_date data \<and>
         step3 data \<and> \<not> conflicting db data \<and>
         (\<exists>l. Listing_objects db (listing_id data) = Some l \<and>
              total_price b =
                price_per_night l * of_int (check_out_date data - check_in_date data))"
proof -
  from assms obtain v where v: "run_validation db today data = Inr v"
    and c: "create db u v = Inr (b, db')"
    by (auto simp: create_booking_def split: sum.splits)
  from v have "v = data" and "step3 data" and "\<not> conflicting db data"
    by (simp_all add: run_validation_Inr)
  with c show ?thesis
    by (auto simp: create_def Let_def split: option.splits)
qed

lemma update_run_validation_Inr:
  assumes "update_run_validation instance data = Inr vd"
  shows "vd = data \<and>
         (\<forall>v. status_value data = Some v \<longrightarrow> validate_status instance v = Inr v)"
  using assms
  by (auto simp: update_run_validation_def validate_status_cases
      split: option.splits sum.splits error.splits if_splits)

lemma update_frame:
  "listing_id (update b vd) = listing_id b \<and>
   check_in_date (update b vd) = check_in_date b \<and>
   check_out_date (update b vd) = check_out_date b \<and>
   guests (update b vd) = guests b \<and>
   user (update b vd) = user b \<and>
   total_price (update b vd) = total_price b"
  by (simp add: update_def Let_def split: option.splits)

lemma update_status:
  "status (update b vd) = (case status_value vd of None \<Rightarrow> status b | Some v \<Rightarrow> v)"
  by (simp add: update_def Let_def split: option.splits)

lemma update_active:
  assumes "update_run_validation b data = Inr vd" and "active (update b vd)"
  shows "active b"
proof (cases "status_value data")
  case None
  with assms update_run_validation_Inr [OF assms(1)] show ?thesis
    by (simp add: active_def update_status)
next
  case (Some v)
  with update_run_validation_Inr [OF assms(1)] have "validate_status b v = Inr v" and "vd = data"
    by simp_all
  with assms(2) Some show ?thesis
    by (auto simp: active_def update_status validate_status_cases split: if_splits)
qed

lemma update_booking_Inr:
  assumes "update_booking db i data = Inr db'"
  shows "i < length (Booking_objects db) \<and>
         Listing_objects db' = Listing_objects db \<and>
         Booking_objects db' = (Booking_objects db)[i := update (Booking_objects db ! i) data] \<and>
         update_run_validation (Booking_objects db ! i) data = Inr data"
  using assms
  by (auto simp: update_booking_def Let_def split: if_splits sum.splits
      dest: update_run_validation_Inr)

section \<open>The invariant of the booking table\<close>

lemma no_double_booking_append:
  assumes inv: "no_double_booking bs"
    and free: "\<not> conflicting \<lparr>Listing_objects = ls, Booking_objects = bs\<rparr> data"
    and b: "listing_id b = listing_id data" "check_in_date b = check_in_date data"
      "check_out_date b = check_out_date data"
  shows "no_double_booking (bs @ [b])"
  unfolding no_double_booking_def
proof (intro allI impI)
  fix i j
  assume i: "i < length (bs @ [b])" and j: "j < length (bs @ [b])"
    and h: "i \<noteq> j \<and> listing_id ((bs @ [b]) ! i) = listing_id ((bs @ [b]) ! j) \<and>
      active ((bs @ [b]) ! i) \<and> active ((bs @ [b]) ! j)"
  have old: "\<not> (check_in_date a < check_out_date data \<and> check_out_date a > check_in_date data)"
    if "a \<in> set bs" "listing_id a = listing_id data" "active a" for a
    using free that by (auto simp: conflicting_def overlaps_def active_def)
  consider "i < length bs" "j < length bs" | "i < length bs" "j = length bs"
    | "i = length bs" "j < length bs"
    using i j h by (cases "i < length bs"; cases "j < length bs") auto
  then show "\<not> (check_in_date ((bs @ [b]) ! i) < check_out_date ((bs @ [b]) ! j) \<and>
      check_out_date ((bs @ [b]) ! i) > check_in_date ((bs @ [b]) ! j))"
  proof cases
    case 1
    with inv h show ?thesis
      by (simp add: no_double_booking_def nth_append)
  next
    case 2
    with h b old [of "bs ! i"] show ?thesis
      by (simp add: nth_append)
  next
    case 3
    with h b old [of "bs ! j"] show ?thesis
      by (auto simp add: nth_append)
  qed
qed

lemma no_double_booking_update:
  assumes inv: "no_double_booking bs" and i: "i < length bs"
    and b: "listing_id b = listing_id (bs ! i)" "check_in_date b = check_in_date (bs ! i)"
      "check_out_date b = check_out_date (bs ! i)" "active b \<longrightarrow> active (bs ! i)"
  shows "no_double_booking (bs[i := b])"
  unfolding no_double_booking_def
proof (intro allI impI)
  fix m n
  assume m: "m < length (bs[i := b])" and n: "n < length (bs[i := b])"
    and h: "m \<noteq> n \<and> listing_id (bs[i := b] ! m) = listing_id (bs[i := b] ! n) \<and>
      active (bs[i := b] ! m) \<and> active (bs[i := b] ! n)"
  have same: "listing_id (bs[i := b] ! k) = listing_id (bs ! k) \<and>
      check_in_date (bs[i := b] ! k) = check_in_date (bs ! k) \<and>
      check_out_date (bs[i := b] ! k) = check_out_date (bs ! k) \<and>
      (active (bs[i := b] ! k) \<longrightarrow> active (bs ! k))" if "k < length bs" for k
    using that b by (cases "k = i") simp_all
  from m n have "m < length bs" "n < length bs"
    by simp_all
  with inv h same [of m] same [of n]
  show "\<not> (check_in_date (bs[i := b] ! m) < check_out_date (bs[i := b] ! n) \<and>
      check_out_date (bs[i := b] ! m) > check_in_date (bs[i := b] ! n))"
    unfolding no_double_booking_def by metis
qed

lemma reachable_no_double_booking:
  "reachable bs \<Longrightarrow> no_double_booking bs"
proof (induction rule: reachable.induct)
  case initial
  show ?case by (simp add: no_double_booking_def)
next
  case (admitted bs ls today u data b db')
  from create_booking_Inr [OF admitted.hyps(2)] admitted.IH show ?case
    by (auto intro: no_double_booking_append)
next
  case (updated bs ls i data db')
  from update_booking_Inr [OF updated.hyps(2)]
  have i: "i < length bs"
    and bs': "Booking_objects db' = bs[i := update (bs ! i) data]"
    and v: "update_run_validation (bs ! i) data = Inr data"
    by simp_all
  have "no_double_booking (bs[i := update (bs ! i) data])"
    using updated.IH i
  proof (rule no_double_booking_update)
    show "active (update (bs ! i) data) \<longrightarrow> active (bs ! i)"
      using update_active [OF v] by blast
  qed (simp_all add: update_frame)
  with bs' show ?case by simp
qed

section \<open>The overlap check\<close>

text \<open>
  C1, as stated, at a request for zero guests: the request passes the five steps, a
  confirmed booking of the listing overlaps it, and validation fails with the error of
  the guests field, not with \<open>DateRangeUnavailable\<close>.
\<close>

theorem overlap_check_guests_counterexample:
  "step1 example_db (request 1 739406 739410 0) \<and>
   step2 739000 (request 1 739406 739410 0) \<and>
   step3 (request 1 739406 739410 0) \<and>
   step4 example_db (request 1 739406 739410 0) \<and>
   step5 example_db (request 1 739406 739410 0) \<and>
   conflicting example_db (request 1 739406 739410 0) \<and>
   run_validation example_db 739000 (request 1 739406 739410 0) =
     Inl (ValidationError (FieldErrors
       [(''guests'', Message ''Number of guests must be greater than 0.'')])) \<and>
   run_validation example_db 739000 (request 1 739406 739410 0) \<noteq> Inl DateRangeUnavailable"
  by (simp add: steps examples run_validation_def field_validators DateRangeUnavailable_def)

text \<open>
  C1, amended. For every booking request that passes validation steps 1 to 5 and asks
  for at least one guest, validation fails with \<open>DateRangeUnavailable\<close> if and only if
  a booking of the same listing with status pending or confirmed has its check-in before
  the requested check-out and its check-out after the requested check-in; when there is
  none, validation returns the request. In particular, when every pending or confirmed
  booking of the listing checks out on or before the requested check-in day, the request
  is not rejected.
\<close>

theorem overlap_check_iff:
  assumes "step1 db data" "step2 today data" "step3 data" "step4 db data" "step5 db data"
    and "0 < guests data"
  shows "(run_validation db today data = Inl DateRangeUnavailable \<longleftrightarrow> conflicting db data) \<and>
         (\<not> conflicting db data \<longrightarrow> run_validation db today data = Inr data) \<and>
         ((\<forall>b \<in> set (Booking_objects db).
             listing_id b = listing_id data \<and> (status b = ''pending'' \<or> status b = ''confirmed'') \<longrightarrow>
             check_out_date b \<le> check_in_date data) \<longrightarrow>
          run_validation db today data = Inr data)"
proof -
  have run: "run_validation db today data =
      (if conflicting db data then Inl DateRangeUnavailable else Inr data)"
    using assms by (simp add: run_validation_eq validate_overlap_check)
  have "\<not> conflicting db data"
    if "\<forall>b \<in> set (Booking_objects db).
          listing_id b = listing_id data \<and> (status b = ''pending'' \<or> status b = ''confirmed'') \<longrightarrow>
          check_out_date b \<le> check_in_date data"
    using that by (fastforce simp: conflicting_def overlaps_def)
  with run show ?thesis by auto
qed

text \<open>
  The specification's example: with a confirmed booking from 2025-06-01 to 2025-06-05,
  the request from 2025-06-04 to 2025-06-08 fails and the back-to-back request from
  2025-06-05 to 2025-06-08 passes.
\<close>

theorem overlap_check_iff_witness:
  "run_validation example_db 739000 (request 1 739406 739410 2) = Inl DateRangeUnavailable \<and>
   run_validation example_db 739000 (request 1 739407 739410 2) = Inr (request 1 739407 739410 2)"
proof -
  have a: "step1 example_db (request 1 739406 739410 2)" "step2 739000 (request 1 739406 739410 2)"
    "step3 (request 1 739406 739410 2)" "step4 example_db (request 1 739406 739410 2)"
    "step5 example_db (request 1 739406 739410 2)" "0 < guests (request 1 739406 739410 2)"
    by (simp_all add: steps examples)
  have b: "step1 example_db (request 1 739407 739410 2)" "step2 739000 (request 1 739407 739410 2)"
    "step3 (request 1 739407 739410 2)" "step4 example_db (request 1 739407 739410 2)"
    "step5 example_db (request 1 739407 739410 2)" "0 < guests (request 1 739407 739410 2)"
    by (simp_all add: steps examples)
  have c: "conflicting example_db (request 1 739406 739410 2)"
    "\<not> conflicting example_db (request 1 739407 739410 2)"
    by (simp_all add: steps examples)
  from overlap_check_iff [OF a] overlap_check_iff [OF b] c show ?thesis
    by blast
qed

section \<open>The total price\<close>

text \<open>
  C2. For every admitted booking request, the total price of the created booking is the
  listing's price per night times the number of nights, where the number of nights is
  the check-out date minus the check-in date in whole days, and is at least 1. The
  created booking has the requested dates and is the new last row of the table.
\<close>

theorem total_price_of_created:
  assumes "create_booking db today u data = Inr (b, db')"
  shows "\<exists>l. Listing_objects db (listing_id data) = Some l \<and>
           total_price b = price_per_night l * of_int (check_out_date b - check_in_date b) \<and>
           1 \<le> check_out_date b - check_in_date b \<and>
           check_in_date b = check_in_date data \<and> check_out_date b = check_out_date data \<and>
           Booking_objects db' = Booking_objects db @ [b]"
  using create_booking_Inr [OF assms]
  by (auto simp: step3_def)

theorem total_price_of_created_witness:
  "create_booking example_db 739000 7 (request 1 739407 739410 2) =
     Inr (stay 739407 739410,
          example_db\<lparr>Booking_objects := [june_booking, stay 739407 739410]\<rparr>) \<and>
   total_price (stay 739407 739410) = price_per_night example_listing * 3"
proof -
  have c: "create_booking example_db 739000 7 (request 1 739407 739410 2) =
     Inr (stay 739407 739410,
          example_db\<lparr>Booking_objects := [june_booking, stay 739407 739410]\<rparr>)"
    by (simp add: admission field_validators examples)
  from total_price_of_created [OF c] obtain l
    where "Listing_objects example_db (listing_id (request 1 739407 739410 2)) = Some l"
      and "total_price (stay 739407 739410) =
        price_per_night l * of_int (check_out_date (stay 739407 739410) -
          check_in_date (stay 739407 739410))"
    by blast
  then have "total_price (stay 739407 739410) = price_per_night example_listing * 3"
    by (simp add: examples)
  with c show ?thesis by simp
qed

section \<open>Status transitions\<close>

text \<open>
  C3. For every booking and every requested status, \<open>validate_status\<close> accepts the
  value exactly for the four pairs pending to confirmed, pending to cancelled,
  confirmed to completed and confirmed to cancelled. Every other pair of a current and a
  requested status, among them every pair whose current status is cancelled or
  completed, raises the validation error whose message names the current and the
  requested status.
\<close>

theorem validate_status_transitions:
  "validate_status b v =
     (if (status b = ''pending'' \<and> (v = ''confirmed'' \<or> v = ''cancelled'')) \<or>
         (status b = ''confirmed'' \<and> (v = ''completed'' \<or> v = ''cancelled''))
      then Inr v
      else Inl (ValidationError (Message
             (''Cannot change status from '' @ status b @ '' to '' @ v @ ''.''))))"
  by (rule validate_status_cases)

theorem validate_status_transitions_witness:
  "validate_status (june_booking\<lparr>status := ''cancelled''\<rparr>) ''confirmed'' =
     Inl (ValidationError (Message ''Cannot change status from cancelled to confirmed.'')) \<and>
   validate_status june_booking ''completed'' = Inr ''completed''"
  using validate_status_transitions [of "june_booking\<lparr>status := ''cancelled''\<rparr>" "''confirmed''"]
    validate_status_transitions [of june_booking "''completed''"]
  by (simp add: june_booking_def)

section \<open>No double booking\<close>

text \<open>
  C4. In every booking table that sequential executions of the admission and of the
  update reach from the empty table, no two different rows on the same listing, both with
  status pending or confirmed, have ranges such that the check-in of the one is before
  the check-out of the other and its check-out after the other's check-in.
\<close>

theorem no_double_booking_reachable:
  assumes "reachable bs" and "i < length bs" and "j < length bs" and "i \<noteq> j"
    and "listing_id (bs ! i) = listing_id (bs ! j)"
    and "status (bs ! i) = ''pending'' \<or> status (bs ! i) = ''confirmed''"
    and "status (bs ! j) = ''pending'' \<or> status (bs ! j) = ''confirmed''"
  shows "\<not> (check_in_date (bs ! i) < check_out_date (bs ! j) \<and>
            check_out_date (bs ! i) > check_in_date (bs ! j))"
  using reachable_no_double_booking [OF assms(1)] assms(2-)
  unfolding no_double_booking_def active_def by blast

text \<open>Two back-to-back admissions reach a table with two pending bookings of one listing.\<close>

theorem no_double_booking_reachable_witness:
  "reachable [stay 739403 739407, stay 739407 739410] \<and>
   \<not> (check_in_date (stay 739403 739407) < check_out_date (stay 739407 739410) \<and>
      check_out_date (stay 739403 739407) > check_in_date (stay 739407 739410))"
proof -
  let ?ls = "[1 \<mapsto> example_listing]"
  have s1: "create_booking \<lparr>Listing_objects = ?ls, Booking_objects = []\<rparr> 739000 7
      (request 1 739403 739407 2) =
      Inr (stay 739403 739407,
           \<lparr>Listing_objects = ?ls, Booking_objects = [stay 739403 739407]\<rparr>)"
    by (simp add: admission field_validators examples)
  have s2: "create_booking \<lparr>Listing_objects = ?ls, Booking_objects = [stay 739403 739407]\<rparr>
      739000 7 (request 1 739407 739410 2) =
      Inr (stay 739407 739410,
           \<lparr>Listing_objects = ?ls,
            Booking_objects = [stay 739403 739407, stay 739407 739410]\<rparr>)"
    by (simp add: admission field_validators examples)
  from reachable.admitted [OF reachable.initial s1]
  have r1: "reachable [stay 739403 739407]" by simp
  from reachable.admitted [OF r1 s2]
  have r2: "reachable [stay 739403 739407, stay 739407 739410]" by simp
  from no_double_booking_reachable [OF r2, of 0 1]
  have "\<not> (check_in_date (stay 739403 739407) < check_out_date (stay 739407 739410) \<and>
      check_out_date (stay 739403 739407) > check_in_date (stay 739407 739410))"
    by (simp add: stay_def)
  with r2 show ?thesis by simp
qed

section \<open>The stay duration\<close>

text \<open>
  C5, as stated, at a one-night request for zero guests: the request passes steps 1 to
  4, the stay is below the minimum stay of two nights, and validation fails with the
  error of the guests field, not with a stay-duration error.
\<close>

theorem stay_duration_guests_counterexample:
  "step1 example_db (request 1 739005 739006 0) \<and>
   step2 739000 (request 1 739005 739006 0) \<and>
   step3 (request 1 739005 739006 0) \<and>
   step4 example_db (request 1 739005 739006 0) \<and>
   check_out_date (request 1 739005 739006 0) - check_in_date (request 1 739005 739006 0)
     < minimum_stay example_listing \<and>
   run_validation example_db 739000 (request 1 739005 739006 0) =
     Inl (ValidationError (FieldErrors
       [(''guests'', Message ''Number of guests must be greater than 0.'')])) \<and>
   run_validation example_db 739000 (request 1 739005 739006 0) \<noteq>
     Inl (minimum_stay_error example_listing) \<and>
   run_validation example_db 739000 (request 1 739005 739006 0) \<noteq>
     Inl (maximum_stay_error example_listing)"
  by (simp add: steps examples run_validation_def field_validators minimum_stay_error_def
      maximum_stay_error_def)

text \<open>
  C5, amended. For every request that passes steps 1 to 4 and asks for at least one
  guest, validation fails with a stay-duration error (the one of the minimum or the one
  of the maximum) if and only if the stay in whole days is below the listing's minimum
  stay or, when the listing defines a maximum stay, above it.
\<close>

theorem stay_duration_check:
  assumes "step1 db data" "step2 today data" "step3 data" "step4 db data"
    and "0 < guests data"
    and "Listing_objects db (listing_id data) = Some l"
  shows "(run_validation db today data = Inl (minimum_stay_error l) \<or>
          run_validation db today data = Inl (maximum_stay_error l)) \<longleftrightarrow>
         \<not> stay_within l (check_out_date data - check_in_date data)"
  using assms
  by (auto simp: run_validation_eq validate_first_violation step3_def step4_def stay_within_iff
      minimum_stay_error_def maximum_stay_error_def DateRangeUnavailable_def)

text \<open>
  The specification's example: with minimum stay 2, maximum stay 14 and at most 4 guests,
  the request for one night, five days ahead, is rejected for its duration, and the
  request for two nights and four guests is admitted.
\<close>

theorem stay_duration_check_witness:
  "(run_validation example_db 739000 (request 1 739005 739006 4) =
      Inl (minimum_stay_error example_listing) \<or>
    run_validation example_db 739000 (request 1 739005 739006 4) =
      Inl (maximum_stay_error example_listing)) \<and>
   \<not> (run_validation example_db 739000 (request 1 739005 739007 4) =
      Inl (minimum_stay_error example_listing) \<or>
    run_validation example_db 739000 (request 1 739005 739007 4) =
      Inl (maximum_stay_error example_listing)) \<and>
   minimum_stay_error example_listing =
     ValidationError (FieldErrors [(''check_out_date'', Message ''Minimum stay is 2 nights.'')]) \<and>
   run_validation example_db 739000 (request 1 739005 739007 4) =
     Inr (request 1 739005 739007 4)"
proof -
  have l: "Listing_objects example_db (listing_id (request 1 d e 4)) = Some example_listing"
    for d e
    by (simp add: examples)
  have a: "step1 example_db (request 1 739005 739006 4)" "step2 739000 (request 1 739005 739006 4)"
    "step3 (request 1 739005 739006 4)" "step4 example_db (request 1 739005 739006 4)"
    "0 < guests (request 1 739005 739006 4)"
    by (simp_all add: steps examples)
  have b: "step1 example_db (request 1 739005 739007 4)" "step2 739000 (request 1 739005 739007 4)"
    "step3 (request 1 739005 739007 4)" "step4 example_db (request 1 739005 739007 4)"
    "0 < guests (request 1 739005 739007 4)"
    by (simp_all add: steps examples)
  have c: "\<not> stay_within example_listing
      (check_out_date (request 1 739005 739006 4) - check_in_date (request 1 739005 739006 4))"
    "stay_within example_listing
      (check_out_date (request 1 739005 739007 4) - check_in_date (request 1 739005 739007 4))"
    by (simp_all add: steps examples)
  have d: "minimum_stay_error example_listing =
     ValidationError (FieldErrors [(''check_out_date'', Message ''Minimum stay is 2 nights.'')])"
    by (simp add: minimum_stay_error_def example_listing_def messages)
  have e: "run_validation example_db 739000 (request 1 739005 739007 4) =
     Inr (request 1 739005 739007 4)"
    by (simp add: admission field_validators examples)
  from stay_duration_check [OF a l] stay_duration_check [OF b l] c d e show ?thesis
    by blast
qed

section \<open>The order of the checks\<close>

text \<open>
  C6, as stated, at a request for a listing that does not exist with a check-in date in
  the past: two constraints are violated and two errors are reported, the one of the
  listing and the one of the check-in date.
\<close>

theorem validation_order_counterexample:
  "\<not> step1 example_db (request 9 738999 739010 2) \<and>
   \<not> step2 739000 (request 9 738999 739010 2) \<and>
   run_validation example_db 739000 (request 9 738999 739010 2) =
     Inl (ValidationError (FieldErrors
       [(''listing_id'', Message ''Invalid listing ID or listing is not available for booking.''),
        (''check_in_date'', Message ''Check-in date must be in the future.'')]))"
  by (simp add: steps examples run_validation_def field_validators)

text \<open>
  C6, amended. The field-level checks (the listing exists, is published and is available;
  the check-in date is in the future; the check-out date is in the future; the guest
  count is at least one) do not fail fast: every violated one is reported, each under
  its own field, in the order of the fields, and then no later check runs. When none of
  them is violated, validation fails fast on the first violation in the order: check-out
  after check-in, guest capacity, minimum stay, maximum stay, overlap; exactly one error
  is reported, that of the earliest violated check. The first four are filed under the
  field \<^verbatim>\<open>check_out_date\<close>, \<^verbatim>\<open>guests\<close>, \<^verbatim>\<open>check_out_date\<close> and
  \<^verbatim>\<open>check_out_date\<close>; the overlap error is filed under no field.
\<close>

theorem validation_order:
  "(field_violations db today data \<noteq> [] \<longrightarrow>
      run_validation db today data =
        Inl (ValidationError (FieldErrors (field_violations db today data)))) \<and>
   (field_violations db today data = [] \<longrightarrow>
      (\<exists>l. Listing_objects db (listing_id data) = Some l \<and>
        run_validation db today data =
          (if check_out_date data \<le> check_in_date data then Inl InvalidDateRange
           else if max_guests l < guests data then Inl (CapacityExceeded l)
           else if check_out_date data - check_in_date data < minimum_stay l
             then Inl (minimum_stay_error l)
           else if exceeds_maximum_stay l (check_out_date data - check_in_date data)
             then Inl (maximum_stay_error l)
           else if conflicting db data then Inl DateRangeUnavailable
           else Inr data))) \<and>
   error_fields InvalidDateRange = [''check_out_date''] \<and>
   error_fields (CapacityExceeded k) = [''guests''] \<and>
   error_fields (minimum_stay_error k) = [''check_out_date''] \<and>
   error_fields (maximum_stay_error k) = [''check_out_date''] \<and>
   error_fields DateRangeUnavailable = []"
proof -
  have collected: "run_validation db today data =
      Inl (ValidationError (FieldErrors (field_violations db today data)))"
    if "field_violations db today data \<noteq> []"
  proof -
    from that have "\<not> (step1 db data \<and> step2 today data \<and> 0 < guests data)"
      unfolding field_violations_Nil .
    then show ?thesis
      unfolding run_validation_eq by (rule if_not_P)
  qed
  have ordered: "\<exists>l. Listing_objects db (listing_id data) = Some l \<and>
      run_validation db today data =
        (if check_out_date data \<le> check_in_date data then Inl InvalidDateRange
         else if max_guests l < guests data then Inl (CapacityExceeded l)
         else if check_out_date data - check_in_date data < minimum_stay l
           then Inl (minimum_stay_error l)
         else if exceeds_maximum_stay l (check_out_date data - check_in_date data)
           then Inl (maximum_stay_error l)
         else if conflicting db data then Inl DateRangeUnavailable
         else Inr data)"
    if "field_violations db today data = []"
  proof -
    from that have ok: "step1 db data \<and> step2 today data \<and> 0 < guests data"
      by (simp add: field_violations_Nil)
    then obtain l where l: "Listing_objects db (listing_id data) = Some l"
      by (auto simp: step1_def split: option.splits)
    have "run_validation db today data = validate db data"
      using ok by (simp add: run_validation_eq)
    with l show ?thesis
      by (simp add: validate_first_violation)
  qed
  have tags: "error_fields InvalidDateRange = [''check_out_date'']"
    "error_fields (CapacityExceeded k) = [''guests'']"
    "error_fields (minimum_stay_error k) = [''check_out_date'']"
    "error_fields (maximum_stay_error k) = [''check_out_date'']"
    "error_fields DateRangeUnavailable = []"
    by (simp_all add: InvalidDateRange_def CapacityExceeded_def minimum_stay_error_def
        maximum_stay_error_def DateRangeUnavailable_def)
  from collected ordered tags show ?thesis
    by blast
qed

text \<open>
  A request for five guests and one night that overlaps the confirmed booking violates the
  capacity, the minimum stay and the availability: only the capacity error is reported.
\<close>

theorem validation_order_witness:
  "max_guests example_listing < guests (request 1 739406 739407 5) \<and>
   \<not> step5 example_db (request 1 739406 739407 5) \<and>
   conflicting example_db (request 1 739406 739407 5) \<and>
   run_validation example_db 739000 (request 1 739406 739407 5) =
     Inl (CapacityExceeded example_listing) \<and>
   CapacityExceeded example_listing =
     ValidationError (FieldErrors
       [(''guests'', Message ''Number of guests cannot exceed 4.'')]) \<and>
   error_fields (CapacityExceeded example_listing) = [''guests'']"
proof -
  have v: "field_violations example_db 739000 (request 1 739406 739407 5) = []"
    by (simp add: field_violations_def steps examples)
  have l: "Listing_objects example_db (listing_id (request 1 739406 739407 5)) =
      Some example_listing"
    by (simp add: examples)
  from validation_order [of example_db 739000 "request 1 739406 739407 5" example_listing] v l
  have "run_validation example_db 739000 (request 1 739406 739407 5) =
      Inl (CapacityExceeded example_listing)"
    and "error_fields (CapacityExceeded example_listing) = [''guests'']"
    by (auto simp: examples)
  moreover have "CapacityExceeded example_listing =
     ValidationError (FieldErrors
       [(''guests'', Message ''Number of guests cannot exceed 4.'')])"
    by (simp add: CapacityExceeded_def example_listing_def messages)
  moreover have "max_guests example_listing < guests (request 1 739406 739407 5)"
    "\<not> step5 example_db (request 1 739406 739407 5)"
    "conflicting example_db (request 1 739406 739407 5)"
    by (simp_all add: steps examples)
  ultimately show ?thesis by blast
qed

section \<open>What an update can change\<close>

text \<open>
  C7. For every existing booking, a successful update changes at most the status and
  the special requests of that booking: its total price, check-in date, check-out date,
  guest count, listing and owner are as before, every other row of the table is as
  before, and so are the listings. The total price computed at creation is never
  recomputed.
\<close>

theorem update_preserves_fields:
  assumes "update_booking db i data = Inr db'"
  shows "Listing_objects db' = Listing_objects db \<and>
         length (Booking_objects db') = length (Booking_objects db) \<and>
         (\<forall>j < length (Booking_objects db).
            total_price (Booking_objects db' ! j) = total_price (Booking_objects db ! j) \<and>
            check_in_date (Booking_objects db' ! j) = check_in_date (Booking_objects db ! j) \<and>
            check_out_date (Booking_objects db' ! j) = check_out_date (Booking_objects db ! j) \<and>
            guests (Booking_objects db' ! j) = guests (Booking_objects db ! j) \<and>
            listing_id (Booking_objects db' ! j) = listing_id (Booking_objects db ! j) \<and>
            user (Booking_objects db' ! j) = user (Booking_objects db ! j) \<and>
            (j \<noteq> i \<longrightarrow> Booking_objects db' ! j = Booking_objects db ! j))"
proof -
  from update_booking_Inr [OF assms]
  have i: "i < length (Booking_objects db)"
    and ls: "Listing_objects db' = Listing_objects db"
    and bs': "Booking_objects db' = (Booking_objects db)[i := update (Booking_objects db ! i) data]"
    by simp_all
  have "total_price (Booking_objects db' ! j) = total_price (Booking_objects db ! j) \<and>
        check_in_date (Booking_objects db' ! j) = check_in_date (Booking_objects db ! j) \<and>
        check_out_date (Booking_objects db' ! j) = check_out_date (Booking_objects db ! j) \<and>
        guests (Booking_objects db' ! j) = guests (Booking_objects db ! j) \<and>
        listing_id (Booking_objects db' ! j) = listing_id (Booking_objects db ! j) \<and>
        user (Booking_objects db' ! j) = user (Booking_objects db ! j) \<and>
        (j \<noteq> i \<longrightarrow> Booking_objects db' ! j = Booking_objects db ! j)"
    if "j < length (Booking_objects db)" for j
    using that bs' by (cases "j = i") (simp_all add: update_frame)
  with ls bs' show ?thesis by simp
qed

text \<open>Completing the confirmed booking, with a note: only the two fields change.\<close>

theorem update_preserves_fields_witness:
  "update_booking example_db 0
     \<lparr>status_value = Some ''completed'', special_requests_value = Some ''late arrival''\<rparr> =
     Inr (example_db\<lparr>Booking_objects :=
            [june_booking\<lparr>special_requests := ''late arrival'', status := ''completed''\<rparr>]\<rparr>) \<and>
   total_price (june_booking\<lparr>special_requests := ''late arrival'', status := ''completed''\<rparr>) =
     total_price june_booking \<and>
   check_in_date (june_booking\<lparr>special_requests := ''late arrival'', status := ''completed''\<rparr>) =
     check_in_date june_booking \<and>
   check_out_date (june_booking\<lparr>special_requests := ''late arrival'', status := ''completed''\<rparr>) =
     check_out_date june_booking"
proof -
  have u: "update_booking example_db 0
     \<lparr>status_value = Some ''completed'', special_requests_value = Some ''late arrival''\<rparr> =
     Inr (example_db\<lparr>Booking_objects :=
            [june_booking\<lparr>special_requests := ''late arrival'', status := ''completed''\<rparr>]\<rparr>)"
    by (simp add: update_booking_def update_run_validation_def validate_status_cases update_def
        Let_def example_db_def june_booking_def)
  from update_preserves_fields [OF u] u show ?thesis
    by (simp add: example_db_def)
qed

section \<open>A maximum stay of zero\<close>

text \<open>
  C8. For every listing whose maximum stay is 0 or null, the maximum-stay check is
  skipped: no duration exceeds the maximum stay, and for a request whose duration is at
  least the minimum stay \<open>validate\<close> raises neither stay-duration error, however long
  the stay is. When such a request also has its check-out after its check-in and a guest
  count within the capacity, the result is decided by the overlap check alone.
\<close>

theorem zero_maximum_stay:
  assumes "Listing_objects db (listing_id data) = Some l"
    and "maximum_stay l = None \<or> maximum_stay l = Some 0"
    and "minimum_stay l \<le> check_out_date data - check_in_date data"
  shows "(\<forall>n. \<not> exceeds_maximum_stay l n) \<and>
         validate db data \<noteq> Inl (minimum_stay_error l) \<and>
         validate db data \<noteq> Inl (maximum_stay_error l) \<and>
         (check_in_date data < check_out_date data \<and> guests data \<le> max_guests l \<longrightarrow>
            validate db data =
              (if conflicting db data then Inl DateRangeUnavailable else Inr data))"
proof -
  have no: "\<not> exceeds_maximum_stay l n" for n
    using assms(2) by (auto simp: exceeds_maximum_stay_def)
  have v: "validate db data =
      (if check_out_date data \<le> check_in_date data then Inl InvalidDateRange
       else if max_guests l < guests data then Inl (CapacityExceeded l)
       else if conflicting db data then Inl DateRangeUnavailable
       else Inr data)"
    using assms(1,3) no by (simp add: validate_first_violation)
  have "validate db data \<noteq> Inl (minimum_stay_error l)"
    unfolding v
    by (simp add: InvalidDateRange_def CapacityExceeded_def DateRangeUnavailable_def
        minimum_stay_error_def)
  moreover have "validate db data \<noteq> Inl (maximum_stay_error l)"
    unfolding v
    by (simp add: InvalidDateRange_def CapacityExceeded_def DateRangeUnavailable_def
        maximum_stay_error_def)
  moreover have "validate db data =
      (if conflicting db data then Inl DateRangeUnavailable else Inr data)"
    if "check_in_date data < check_out_date data \<and> guests data \<le> max_guests l"
    using that unfolding v by simp
  ultimately show ?thesis
    using no by blast
qed

text \<open>A stay of a thousand nights at the listing whose stored maximum stay is 0.\<close>

theorem zero_maximum_stay_witness:
  "maximum_stay open_ended_listing = Some 0 \<and>
   validate example_db (request 2 739010 740010 2) = Inr (request 2 739010 740010 2)"
proof -
  have l: "Listing_objects example_db (listing_id (request 2 739010 740010 2)) =
      Some open_ended_listing"
    by (simp add: examples)
  have m: "maximum_stay open_ended_listing = None \<or> maximum_stay open_ended_listing = Some 0"
    by (simp add: examples)
  have a: "minimum_stay open_ended_listing \<le>
      check_out_date (request 2 739010 740010 2) - check_in_date (request 2 739010 740010 2)"
    by (simp add: examples)
  have b: "check_in_date (request 2 739010 740010 2) < check_out_date (request 2 739010 740010 2) \<and>
    guests (request 2 739010 740010 2) \<le> max_guests open_ended_listing"
    by (simp add: examples)
  have c: "\<not> conflicting example_db (request 2 739010 740010 2)"
    by (simp add: steps examples)
  from zero_maximum_stay [OF l m a] b c show ?thesis
    by (simp add: open_ended_listing_def)
qed

section \<open>The lower bound of the guest count\<close>

text \<open>
  C9. For every booking request with a guest count of zero or less, the guests validator
  raises its error, and the admission rejects the request with a validation error that
  files this error under the field \<^verbatim>\<open>guests\<close>, whatever the listing's maximum guest
  count is and whatever else is wrong with the request.
\<close>

theorem guests_lower_bound:
  assumes "guests data \<le> 0"
  shows "validate_guests (guests data) =
           Inl (ValidationError (Message ''Number of guests must be greater than 0.'')) \<and>
         (\<exists>es. run_validation db today data = Inl (ValidationError (FieldErrors es)) \<and>
              create_booking db today u data = Inl (ValidationError (FieldErrors es)) \<and>
              (''guests'', Message ''Number of guests must be greater than 0.'') \<in> set es)"
proof -
  have "run_validation db today data =
      Inl (ValidationError (FieldErrors (field_violations db today data)))"
    using assms by (simp add: run_validation_eq)
  moreover have "(''guests'', Message ''Number of guests must be greater than 0.'')
      \<in> set (field_violations db today data)"
    using assms by (simp add: field_violations_def)
  ultimately show ?thesis
    using assms by (simp add: create_booking_def validate_guests_def)
qed

theorem guests_lower_bound_witness:
  "guests (request 1 739407 739410 0) \<le> 0 \<and>
   (\<exists>es. run_validation example_db 739000 (request 1 739407 739410 0) =
            Inl (ValidationError (FieldErrors es)) \<and>
         create_booking example_db 739000 7 (request 1 739407 739410 0) =
            Inl (ValidationError (FieldErrors es)) \<and>
         (''guests'', Message ''Number of guests must be greater than 0.'') \<in> set es)"
proof -
  have g: "guests (request 1 739407 739410 0) \<le> 0"
    by (simp add: request_def)
  from guests_lower_bound [OF g, of example_db 739000 7] g show ?thesis
    by blast
qed

section \<open>Special requests of a finished booking\<close>

text \<open>
  C10. For every booking of the table, whatever its status, also cancelled or completed,
  an update that supplies special requests and no status succeeds and sets the special
  requests of that booking, leaving everything else as it is: \<open>validate_status\<close> runs
  only on a status that is present in the input.
\<close>

theorem special_requests_always_editable:
  assumes "i < length (Booking_objects db)"
  shows "update_booking db i \<lparr>status_value = None, special_requests_value = Some s\<rparr> =
           Inr (db\<lparr>Booking_objects :=
                  (Booking_objects db)[i := (Booking_objects db ! i)\<lparr>special_requests := s\<rparr>]\<rparr>)"
  using assms
  by (simp add: update_booking_def update_run_validation_def update_def)

text \<open>The same booking, cancelled: its special requests can still be set.\<close>

theorem special_requests_always_editable_witness:
  "update_booking (example_db\<lparr>Booking_objects := [june_booking\<lparr>status := ''cancelled''\<rparr>]\<rparr>) 0
     \<lparr>status_value = None, special_requests_value = Some ''late arrival''\<rparr> =
     Inr (example_db\<lparr>Booking_objects :=
            [june_booking\<lparr>special_requests := ''late arrival'', status := ''cancelled''\<rparr>]\<rparr>)"
proof -
  have "0 < length (Booking_objects
      (example_db\<lparr>Booking_objects := [june_booking\<lparr>status := ''cancelled''\<rparr>]\<rparr>))"
    by simp
  from special_requests_always_editable [OF this, of "''late arrival''"] show ?thesis
    by (simp add: june_booking_def)
qed

end
